theory Spec2Isabelle
  imports Complex_Main "HOL-Library.Multiset"
begin

section \<open>The alarms table and the stale-record cleanup procedure\<close>

text \<open>
  Source: \<^verbatim>\<open>migrations/002_add_cleanup_procedure.sql\<close>.

  The declaration of the \<^verbatim>\<open>alarms\<close> table (an earlier migration) is not part of the
  sources; the procedure reads the columns \<^verbatim>\<open>id\<close>, \<^verbatim>\<open>status\<close> and \<^verbatim>\<open>created_at\<close> only.
  A row is a record with these three columns (the column \<^verbatim>\<open>id\<close> is the field \<open>alarm_id\<close>);
  every other column lives in the extension part of the record, so a row that survives
  is compared with all its columns. The specification's data model makes \<open>id\<close> unique;
  the theorems that need it assume \<open>distinct (map alarm_id tbl)\<close>.
  Timestamps are whole seconds (\<open>int\<close>); SQL \<^verbatim>\<open>NULL\<close> values and the range limits of
  \<^verbatim>\<open>DATETIME\<close> and \<^verbatim>\<open>INT\<close> are outside the model.
\<close>

text \<open>
  Modelled from the spec: the \<^verbatim>\<open>status\<close> column. Its declaration is in the missing table
  definition; the data model of the specification gives the enumeration
  \<open>{pending, triggered, failed, deleted}\<close>.
\<close>

datatype status = Pending | Triggered | Failed | Deleted

record alarm =
  alarm_id :: int
  status :: status
  created_at :: int

type_synonym 'a alarms = "'a alarm_scheme list"

text \<open>
  The state of the database as one session sees it: the committed table, and the working
  copy of the table while the session has a transaction open.
\<close>

record 'a database =
  committed :: "'a alarms"
  txn :: "'a alarms option"

definition visible :: "'a database \<Rightarrow> 'a alarms" where
  "visible db = (case txn db of None \<Rightarrow> committed db | Some w \<Rightarrow> w)"

text \<open>\<^verbatim>\<open>START TRANSACTION\<close>: commits a transaction that is still open, then opens one.\<close>

definition start_transaction :: "'a database \<Rightarrow> 'a database" where
  "start_transaction db = \<lparr>committed = visible db, txn = Some (visible db)\<rparr>"

text \<open>\<^verbatim>\<open>COMMIT\<close>: the working copy becomes the committed table.\<close>

definition commit :: "'a database \<Rightarrow> 'a database" where
  "commit db = \<lparr>committed = visible db, txn = None\<rparr>"

text \<open>
  \<^verbatim>\<open>ROLLBACK\<close>, which is also what the storage engine does when the session ends, or the
  server stops, with the transaction still open: the working copy is dropped. The
  procedure itself never rolls back.
\<close>

definition rollback :: "'a database \<Rightarrow> 'a database" where
  "rollback db = \<lparr>committed = committed db, txn = None\<rparr>"

text \<open>
  \<^verbatim>\<open>DELETE FROM alarms WHERE id = v_alarm_id\<close>: inside a transaction it changes the working
  copy; with no transaction open the statement is committed on its own.
\<close>

definition delete_where_id :: "int \<Rightarrow> 'a alarms \<Rightarrow> 'a alarms" where
  "delete_where_id v_alarm_id tbl = filter (\<lambda>r. alarm_id r \<noteq> v_alarm_id) tbl"

definition delete_from_alarms :: "int \<Rightarrow> 'a database \<Rightarrow> 'a database" where
  "delete_from_alarms v_alarm_id db =
     (case txn db of
        None \<Rightarrow> \<lparr>committed = delete_where_id v_alarm_id (committed db), txn = None\<rparr>
      | Some w \<Rightarrow> \<lparr>committed = committed db, txn = Some (delete_where_id v_alarm_id w)\<rparr>)"

text \<open>\<^verbatim>\<open>DATE_SUB(NOW(), INTERVAL days_old DAY)\<close>, with \<open>now\<close> the value of \<^verbatim>\<open>NOW()\<close>.\<close>

definition date_sub_days :: "int \<Rightarrow> int \<Rightarrow> int" where
  "date_sub_days now days_old = now - days_old * 86400"

text \<open>The \<^verbatim>\<open>WHERE\<close> clause of the cursor's query.\<close>

definition cur_where :: "int \<Rightarrow> int \<Rightarrow> 'a alarm_scheme \<Rightarrow> bool" where
  "cur_where days_old now r \<longleftrightarrow>
     (status r = Triggered \<or> status r = Failed) \<and> created_at r < date_sub_days now days_old"

text \<open>
  \<^verbatim>\<open>OPEN cur\<close>: the query \<^verbatim>\<open>SELECT id FROM alarms WHERE ...\<close> runs on the table the session
  sees. The query has no \<^verbatim>\<open>ORDER BY\<close>; the model enumerates in table order, and the
  theorems about the loop hold for every order.
\<close>

definition open_cur :: "int \<Rightarrow> int \<Rightarrow> 'a database \<Rightarrow> int list" where
  "open_cur days_old now db = map alarm_id (filter (cur_where days_old now) (visible db))"

text \<open>
  \<^verbatim>\<open>read_loop\<close>: \<^verbatim>\<open>FETCH cur INTO v_alarm_id\<close> takes the next id; on an exhausted cursor the
  \<^verbatim>\<open>NOT FOUND\<close> handler sets \<^verbatim>\<open>done\<close> and the loop is left; otherwise the row with
  that id is deleted.
\<close>

fun read_loop :: "int list \<Rightarrow> 'a database \<Rightarrow> 'a database" where
  "read_loop [] db = db"
| "read_loop (v_alarm_id # cur) db = read_loop cur (delete_from_alarms v_alarm_id db)"

definition sp_cleanup_old_alarms :: "int \<Rightarrow> int \<Rightarrow> 'a database \<Rightarrow> 'a database" where
  "sp_cleanup_old_alarms days_old now db =
     (let db1 = start_transaction db;
          cur = open_cur days_old now db1;
          db2 = read_loop cur db1
      in commit db2)"

text \<open>The scheduled event \<^verbatim>\<open>ev_cleanup_old_alarms\<close>: \<^verbatim>\<open>CALL sp_cleanup_old_alarms(30)\<close>.\<close>

definition ev_cleanup_old_alarms :: "int \<Rightarrow> 'a database \<Rightarrow> 'a database" where
  "ev_cleanup_old_alarms now db = sp_cleanup_old_alarms 30 now db"

text \<open>
  The set-based form the specification asks for, following its words:
  \<^verbatim>\<open>DELETE FROM alarms WHERE status IN (triggered, failed) AND created_at < now - retention\<close>,
  run as one statement in a session with no transaction open.
\<close>

definition sweep_delete :: "int \<Rightarrow> int \<Rightarrow> 'a database \<Rightarrow> 'a database" where
  "sweep_delete retention_days now db =
     \<lparr>committed =
        filter (\<lambda>r. \<not> (status r \<in> {Triggered, Failed} \<and>
                        created_at r < now - retention_days * 86400)) (committed db),
      txn = None\<rparr>"

text \<open>The table is idle: the session has no transaction open.\<close>

definition idle :: "'a alarms \<Rightarrow> 'a database" where
  "idle tbl = \<lparr>committed = tbl, txn = None\<rparr>"

text \<open>
  The procedure statement by statement, to speak about an invocation that does not reach
  its end. \<open>pc\<close> is the statement the invocation is at, \<open>cursor\<close> the ids the open cursor has
  not delivered yet. One \<open>step\<close> executes one statement; a pass of \<^verbatim>\<open>read_loop\<close> (the
  \<^verbatim>\<open>FETCH\<close>, the test of \<^verbatim>\<open>done\<close> and the \<^verbatim>\<open>DELETE\<close>) is one step, and so is the last
  \<^verbatim>\<open>FETCH\<close>, which finds nothing and leaves the loop (\<^verbatim>\<open>CLOSE cur\<close>, which changes
  nothing, goes with it). The procedure has no \<^verbatim>\<open>ROLLBACK\<close> and
  no handler but the one for \<^verbatim>\<open>NOT FOUND\<close>: an invocation that stops early leaves the
  session as it is at that statement, with the transaction open.
\<close>

datatype location = At_START_TRANSACTION | At_OPEN | At_read_loop | At_COMMIT | Returned

record 'a invocation =
  session :: "'a database"
  cursor :: "int list"
  pc :: location

text \<open>\<^verbatim>\<open>CALL sp_cleanup_old_alarms(days_old)\<close> in a session whose state is \<open>db\<close>.\<close>

definition invoke :: "'a database \<Rightarrow> 'a invocation" where
  "invoke db = \<lparr>session = db, cursor = [], pc = At_START_TRANSACTION\<rparr>"

definition step :: "int \<Rightarrow> int \<Rightarrow> 'a invocation \<Rightarrow> 'a invocation" where
  "step days_old now s =
     (case pc s of
        At_START_TRANSACTION \<Rightarrow> s\<lparr>session := start_transaction (session s), pc := At_OPEN\<rparr>
      | At_OPEN \<Rightarrow> s\<lparr>cursor := open_cur days_old now (session s), pc := At_read_loop\<rparr>
      | At_read_loop \<Rightarrow>
          (case cursor s of
             [] \<Rightarrow> s\<lparr>pc := At_COMMIT\<rparr>
           | v_alarm_id # rest \<Rightarrow>
               s\<lparr>session := delete_from_alarms v_alarm_id (session s), cursor := rest\<rparr>)
      | At_COMMIT \<Rightarrow> s\<lparr>session := commit (session s), pc := Returned\<rparr>
      | Returned \<Rightarrow> s)"

text \<open>The invocation after its first \<open>k\<close> statements.\<close>

fun run_steps :: "nat \<Rightarrow> int \<Rightarrow> int \<Rightarrow> 'a invocation \<Rightarrow> 'a invocation" where
  "run_steps 0 days_old now s = s"
| "run_steps (Suc k) days_old now s = run_steps k days_old now (step days_old now s)"

text \<open>
  The invariant of an invocation on the idle table \<open>tbl\<close>: from \<^verbatim>\<open>START TRANSACTION\<close> until
  the \<^verbatim>\<open>COMMIT\<close> has run, a transaction is open and the committed table is \<open>tbl\<close>.
\<close>

definition in_transaction :: "'a alarms \<Rightarrow> 'a invocation \<Rightarrow> bool" where
  "in_transaction tbl s \<longleftrightarrow>
     (pc s = At_START_TRANSACTION \<and> session s = idle tbl) \<or>
     (pc s \<in> {At_OPEN, At_read_loop, At_COMMIT} \<and> committed (session s) = tbl \<and>
      txn (session s) \<noteq> None) \<or>
     pc s = Returned"


section \<open>The indicator engine: RSI\<close>

text \<open>
  The worker that evaluates alarms (the indicator engine) is not part of the sources.
  Prices are exact reals here; the rounding of floating-point arithmetic is outside the
  model.
\<close>

datatype indicator_result = InsufficientData | Value real

text \<open>
  Modelled from the spec: the helpers of the missing \<open>RSI\<close> function. \<open>deltas\<close> are the
  consecutive price deltas of a series (oldest sample first), \<open>last_samples\<close> is the window
  of the most recent samples, and the average gain and the average loss are taken over the
  \<open>n\<close> deltas of the window.
\<close>

fun deltas :: "real list \<Rightarrow> real list" where
  "deltas (x # y # xs) = (y - x) # deltas (y # xs)"
| "deltas _ = []"

definition last_samples :: "nat \<Rightarrow> real list \<Rightarrow> real list" where
  "last_samples n series = drop (length series - n) series"

definition average_gain :: "real list \<Rightarrow> nat \<Rightarrow> real" where
  "average_gain ds n = (\<Sum>d\<leftarrow>ds. max d 0) / real n"

definition average_loss :: "real list \<Rightarrow> nat \<Rightarrow> real" where
  "average_loss ds n = (\<Sum>d\<leftarrow>ds. max (- d) 0) / real n"

text \<open>
  Modelled from the spec: the function \<open>RSI(series, period)\<close> of the indicator engine,
  which is missing from the sources. The specification's words: RSI over the last
  \<open>period\<close> price deltas, average gain / average loss over the window, ratio to
  \<open>100 - 100/(1+RS)\<close>; at least \<open>period + 1\<close> samples are required, with fewer the
  result is \<open>InsufficientData\<close>; an average loss of exactly zero gives 100.
\<close>

definition RSI :: "real list \<Rightarrow> nat \<Rightarrow> indicator_result" where
  "RSI series n =
     (if length series < n + 1 then InsufficientData
      else
        let ds = deltas (last_samples (n + 1) series);
            avg_gain = average_gain ds n;
            avg_loss = average_loss ds n
        in if avg_loss = 0 then Value 100
           else Value (100 - 100 / (1 + avg_gain / avg_loss)))"


section \<open>The alarm form\<close>

subsection \<open>JavaScript numbers\<close>

text \<open>
  A JavaScript number is \<^verbatim>\<open>NaN\<close>, an infinity or a finite value. The handlers only compare
  numbers with constants, and comparison of floating-point values is exact, so finite
  values are reals here.
\<close>

datatype number = NaN | NegInfinity | Finite real | Infinity

fun isNaN :: "number \<Rightarrow> bool" where
  "isNaN NaN = True"
| "isNaN _ = False"

text \<open>\<^verbatim>\<open>a < b\<close>: false as soon as one side is \<^verbatim>\<open>NaN\<close>.\<close>

fun js_lt :: "number \<Rightarrow> number \<Rightarrow> bool" where
  "js_lt NaN _ = False"
| "js_lt _ NaN = False"
| "js_lt _ NegInfinity = False"
| "js_lt NegInfinity _ = True"
| "js_lt Infinity _ = False"
| "js_lt (Finite a) (Finite b) = (a < b)"
| "js_lt (Finite a) Infinity = True"

text \<open>\<^verbatim>\<open>a > b\<close> and \<^verbatim>\<open>a <= b\<close>, as the language defines them from \<^verbatim>\<open><\<close>.\<close>

definition js_gt :: "number \<Rightarrow> number \<Rightarrow> bool" where
  "js_gt a b = js_lt b a"

definition js_le :: "number \<Rightarrow> number \<Rightarrow> bool" where
  "js_le a b \<longleftrightarrow> \<not> isNaN a \<and> \<not> isNaN b \<and> \<not> js_lt b a"

subsection \<open>The form data (\<^verbatim>\<open>lib/api\<close>)\<close>

datatype AssetClass = Crypto | Forex | Stock

datatype AlarmType = Price | Rsi | Bollinger

datatype direction = Above | Below

text \<open>\<^verbatim>\<open>interface AlarmParams\<close>: every field is optional; \<open>None\<close> is an absent field.\<close>

record AlarmParams =
  target_price :: "number option"
  period :: "number option"
  threshold :: "number option"
  std_dev :: "number option"
  direction :: "direction option"

text \<open>
  \<^verbatim>\<open>interface AlarmData\<close>. The form's default values leave \<^verbatim>\<open>asset_class\<close> and
  \<^verbatim>\<open>alarm_type\<close> undefined, and the handlers read \<^verbatim>\<open>params\<close> through \<^verbatim>\<open>?.\<close>, so these three
  fields are optional here.
\<close>

record AlarmData =
  asset_class :: "AssetClass option"
  asset_symbol :: string
  alarm_type :: "AlarmType option"
  params :: "AlarmParams option"
  email :: string

datatype Error = Error string

text \<open>
  \<^verbatim>\<open>Number(formData.params?.field)\<close> on a field of the declared type
  \<^verbatim>\<open>number | undefined\<close>: \<^verbatim>\<open>undefined\<close> converts to \<^verbatim>\<open>NaN\<close>, a number is itself.
\<close>

fun Number :: "number option \<Rightarrow> number" where
  "Number None = NaN"
| "Number (Some x) = x"

text \<open>\<^verbatim>\<open>let params: AlarmParams = {}\<close>\<close>

definition no_params :: AlarmParams where
  "no_params =
     \<lparr>target_price = None, period = None, threshold = None, std_dev = None, direction = None\<rparr>"

subsection \<open>The submit handler of \<^verbatim>\<open>unnamed/part_001\<close>\<close>

text \<open>
  \<^verbatim>\<open>onSubmit\<close>, from its start to the call of \<^verbatim>\<open>createAlarm\<close>: the result is the error
  thrown by a validation, or the payload \<^verbatim>\<open>{...formData, params}\<close> that is handed to
  \<^verbatim>\<open>createAlarm\<close>.
\<close>

definition onSubmit :: "AlarmData \<Rightarrow> Error + AlarmData" where
  "onSubmit formData =
     (if alarm_type formData = Some Price then
        let targetPrice = Number (Option.bind (params formData) target_price);
            dir = (case Option.bind (params formData) direction of
                     None \<Rightarrow> Above | Some d \<Rightarrow> d)
        in if isNaN targetPrice \<or> js_le targetPrice (Finite 0)
           then Inl (Error ''Invalid price value'')
           else Inr (formData\<lparr>params :=
                  Some (no_params\<lparr>target_price := Some targetPrice, direction := Some dir\<rparr>)\<rparr>)
      else if alarm_type formData = Some Rsi then
        let per = Number (Option.bind (params formData) period);
            thr = Number (Option.bind (params formData) threshold)
        in if isNaN per \<or> js_lt per (Finite 1) \<or> js_gt per (Finite 100)
           then Inl (Error ''Invalid RSI period'')
           else if isNaN thr \<or> js_lt thr (Finite 0) \<or> js_gt thr (Finite 100)
           then Inl (Error ''Invalid RSI threshold'')
           else Inr (formData\<lparr>params :=
                  Some (no_params\<lparr>period := Some per, threshold := Some thr\<rparr>)\<rparr>)
      else if alarm_type formData = Some Bollinger then
        let per = Number (Option.bind (params formData) period);
            stdDev = Number (Option.bind (params formData) std_dev)
        in if isNaN per \<or> js_lt per (Finite 1) \<or> js_gt per (Finite 100)
           then Inl (Error ''Invalid Bollinger period'')
           else if isNaN stdDev \<or> js_le stdDev (Finite 0) \<or> js_gt stdDev (Finite 10)
           then Inl (Error ''Invalid standard deviation'')
           else Inr (formData\<lparr>params :=
                  Some (no_params\<lparr>period := Some per, std_dev := Some stdDev\<rparr>)\<rparr>)
      else Inr (formData\<lparr>params := Some no_params\<rparr>))"

subsection \<open>The submit handler of \<^verbatim>\<open>frontend/components/AlarmForm.tsx\<close>\<close>

text \<open>The same function in the other copy of the form; it only checks for \<^verbatim>\<open>NaN\<close>.\<close>

definition onSubmit_components :: "AlarmData \<Rightarrow> Error + AlarmData" where
  "onSubmit_components formData =
     (if alarm_type formData = Some Price then
        let targetPrice = Number (Option.bind (params formData) target_price)
        in if isNaN targetPrice
           then Inl (Error ''Invalid target price value'')
           else Inr (formData\<lparr>params := Some (no_params\<lparr>target_price := Some targetPrice\<rparr>)\<rparr>)
      else if alarm_type formData = Some Rsi then
        let per = Number (Option.bind (params formData) period);
            thr = Number (Option.bind (params formData) threshold)
        in if isNaN per \<or> isNaN thr
           then Inl (Error ''Invalid RSI parameters'')
           else Inr (formData\<lparr>params :=
                  Some (no_params\<lparr>period := Some per, threshold := Some thr\<rparr>)\<rparr>)
      else if alarm_type formData = Some Bollinger then
        let per = Number (Option.bind (params formData) period);
            stdDev = Number (Option.bind (params formData) std_dev)
        in if isNaN per \<or> isNaN stdDev
           then Inl (Error ''Invalid Bollinger parameters'')
           else Inr (formData\<lparr>params :=
                  Some (no_params\<lparr>period := Some per, std_dev := Some stdDev\<rparr>)\<rparr>)
      else Inr (formData\<lparr>params := Some no_params\<rparr>))"

subsection \<open>Validation of the asset symbol (\<^verbatim>\<open>unnamed/part_001\<close>)\<close>

text \<open>
  The field is registered with \<^verbatim>\<open>required\<close> and the pattern \<^verbatim>\<open>/^[A-Za-z0-9-/]+$/\<close>. The
  character class has three ranges and the two single characters \<^verbatim>\<open>-\<close> and \<^verbatim>\<open>/\<close>; a range
  holds the characters whose code lies between the codes of its ends.
\<close>

datatype class_item = ClassRange char char | ClassChar char

fun class_item_matches :: "class_item \<Rightarrow> char \<Rightarrow> bool" where
  "class_item_matches (ClassRange lo hi) c \<longleftrightarrow>
     (of_char lo :: nat) \<le> of_char c \<and> (of_char c :: nat) \<le> of_char hi"
| "class_item_matches (ClassChar x) c \<longleftrightarrow> c = x"

definition symbol_class :: "class_item list" where
  "symbol_class =
     [ClassRange CHR ''A'' CHR ''Z'', ClassRange CHR ''a'' CHR ''z'',
      ClassRange CHR ''0'' CHR ''9'', ClassChar CHR ''-'', ClassChar CHR ''/'']"

text \<open>\<^verbatim>\<open>^[...]+$\<close>: one or more characters, each of the class, and nothing else.\<close>

definition pattern_test :: "class_item list \<Rightarrow> string \<Rightarrow> bool" where
  "pattern_test cls v \<longleftrightarrow> v \<noteq> [] \<and> list_all (\<lambda>c. list_ex (\<lambda>i. class_item_matches i c) cls) v"

text \<open>
  The validation of the field \<^verbatim>\<open>asset_symbol\<close>: the message of the first rule that fails,
  \<open>None\<close> when the value is accepted. The rules do not read any other field of the form.
\<close>

definition asset_symbol_error :: "AlarmData \<Rightarrow> string option" where
  "asset_symbol_error formData =
     (if asset_symbol formData = [] then Some ''Asset symbol is required''
      else if \<not> pattern_test symbol_class (asset_symbol formData) then Some ''Invalid symbol format''
      else None)"

text \<open>The character set in the specification's words: letters, digits, \<^verbatim>\<open>-\<close> and \<^verbatim>\<open>/\<close>.\<close>

definition ascii_letters :: "char set" where
  "ascii_letters = set ''ABCDEFGHIJKLMNOPQRSTUVWXYZabcdefghijklmnopqrstuvwxyz''"

definition ascii_digits :: "char set" where
  "ascii_digits = set ''0123456789''"

definition symbol_syntax :: "string \<Rightarrow> bool" where
  "symbol_syntax v \<longleftrightarrow>
     v \<noteq> [] \<and> (\<forall>c \<in> set v. c \<in> ascii_letters \<or> c \<in> ascii_digits \<or> c = CHR ''-'' \<or> c = CHR ''/'')"


section \<open>The asset cache (\<^verbatim>\<open>frontend/pages/_app.tsx\<close>)\<close>

record AssetsResponse =
  assets :: "string list"

record CacheEntry =
  data :: "string list"
  timestamp :: int

datatype APIError = APIError nat string

definition CACHE_DURATION_MS :: int where
  "CACHE_DURATION_MS = 5 * 60 * 1000"

text \<open>
  The outcome of one call of \<^verbatim>\<open>getCachedAssets\<close>: what the promise settles with (the
  rejection or the list), the cache afterwards, and the network requests that were issued.
\<close>

record outcome =
  result :: "APIError + string list"
  assetCache :: "AssetClass \<rightharpoonup> CacheEntry"
  requests :: "AssetClass list"

text \<open>
  \<^verbatim>\<open>getCachedAssets\<close>. The network is the parameter \<open>getAssets\<close>: what a request for a
  class answers, a rejection or a response. \<open>now\<close> is the value of \<^verbatim>\<open>Date.now()\<close>.
\<close>

definition getCachedAssets ::
  "(AssetClass \<Rightarrow> APIError + AssetsResponse) \<Rightarrow> int \<Rightarrow> (AssetClass \<rightharpoonup> CacheEntry) \<Rightarrow>
   AssetClass \<Rightarrow> outcome" where
  "getCachedAssets getAssets now cache assetClass =
     (let cached = cache assetClass in
      case (case cached of
              Some c \<Rightarrow> if now - timestamp c < CACHE_DURATION_MS then Some c else None
            | None \<Rightarrow> None) of
        Some c \<Rightarrow> \<lparr>result = Inr (data c), assetCache = cache, requests = []\<rparr>
      | None \<Rightarrow>
          (case getAssets assetClass of
             Inr response \<Rightarrow>
               \<lparr>result = Inr (assets response),
                assetCache = cache(assetClass \<mapsto> \<lparr>data = assets response, timestamp = now\<rparr>),
                requests = [assetClass]\<rparr>
           | Inl err \<Rightarrow>
               (case cached of
                  Some c \<Rightarrow> \<lparr>result = Inr (data c), assetCache = cache, requests = [assetClass]\<rparr>
                | None \<Rightarrow> \<lparr>result = Inl err, assetCache = cache, requests = [assetClass]\<rparr>)))"


section \<open>Example inputs\<close>

text \<open>Concrete tables and forms at which the theorems below are evaluated.\<close>

definition example_alarms :: "alarm list" where
  "example_alarms =
     [\<lparr>alarm_id = 1, status = Triggered, created_at = 0\<rparr>,
      \<lparr>alarm_id = 2, status = Pending, created_at = 0\<rparr>,
      \<lparr>alarm_id = 3, status = Failed, created_at = 100\<rparr>,
      \<lparr>alarm_id = 4, status = Failed, created_at = 4000000\<rparr>,
      \<lparr>alarm_id = 5, status = Deleted, created_at = 50\<rparr>]"

definition example_pending :: "alarm list" where
  "example_pending =
     [\<lparr>alarm_id = 7, status = Pending, created_at = 0\<rparr>,
      \<lparr>alarm_id = 8, status = Failed, created_at = 4999000\<rparr>]"

definition example_duplicate_ids :: "alarm list" where
  "example_duplicate_ids =
     [\<lparr>alarm_id = 1, status = Triggered, created_at = 0\<rparr>,
      \<lparr>alarm_id = 1, status = Pending, created_at = 0\<rparr>]"

definition example_form :: "AlarmType \<Rightarrow> AlarmParams \<Rightarrow> AlarmData" where
  "example_form t ps =
     \<lparr>asset_class = Some Crypto, asset_symbol = ''BTC-USD'', alarm_type = Some t,
      params = Some ps, email = ''user@example.com''\<rparr>"

definition example_cache :: "AssetClass \<rightharpoonup> CacheEntry" where
  "example_cache = [Crypto \<mapsto> \<lparr>data = [''BTC-USD'', ''ETH-USD''], timestamp = 1000\<rparr>]"

definition network_down :: "AssetClass \<Rightarrow> APIError + AssetsResponse" where
  "network_down assetClass = Inl (APIError 500 ''Failed to fetch'')"


section \<open>Properties of the cleanup procedure\<close>

lemma read_loop_in_txn:
  "read_loop ids \<lparr>committed = c, txn = Some w\<rparr> =
     \<lparr>committed = c, txn = Some (filter (\<lambda>r. alarm_id r \<notin> set ids) w)\<rparr>"
proof (induction ids arbitrary: w)
  case Nil
  show ?case by simp
next
  case (Cons v ids)
  have "filter (\<lambda>r. alarm_id r \<notin> set ids) (delete_where_id v w) =
        filter (\<lambda>r. alarm_id r \<notin> set (v # ids)) w"
    by (induction w) (auto simp: delete_where_id_def)
  then show ?case
    by (simp add: delete_from_alarms_def Cons.IH)
qed

lemma sp_cleanup_old_alarms_idle:
  "sp_cleanup_old_alarms d now (idle tbl) =
     idle (filter (\<lambda>r. alarm_id r \<notin> alarm_id ` {x \<in> set tbl. cur_where d now x}) tbl)"
  by (simp add: sp_cleanup_old_alarms_def idle_def start_transaction_def visible_def
      open_cur_def commit_def read_loop_in_txn Let_def)

lemma unique_id_selected:
  assumes "distinct (map alarm_id tbl)" and "r \<in> set tbl"
  shows "alarm_id r \<in> alarm_id ` {x \<in> set tbl. cur_where d now x} \<longleftrightarrow> cur_where d now r"
proof
  assume "alarm_id r \<in> alarm_id ` {x \<in> set tbl. cur_where d now x}"
  then obtain x where x: "x \<in> set tbl" "cur_where d now x" "alarm_id r = alarm_id x"
    by auto
  from assms(1) have "inj_on alarm_id (set tbl)"
    by (simp add: distinct_map)
  with x(1,3) assms(2) have "r = x"
    by (auto dest: inj_onD)
  with x(2) show "cur_where d now r" by simp
next
  assume "cur_where d now r"
  with assms(2) show "alarm_id r \<in> alarm_id ` {x \<in> set tbl. cur_where d now x}"
    by auto
qed

lemma sp_cleanup_old_alarms_unique:
  assumes "distinct (map alarm_id tbl)"
  shows "sp_cleanup_old_alarms d now (idle tbl) =
           idle (filter (\<lambda>r. \<not> cur_where d now r) tbl)"
proof -
  have "filter (\<lambda>r. alarm_id r \<notin> alarm_id ` {x \<in> set tbl. cur_where d now x}) tbl =
        filter (\<lambda>r. \<not> cur_where d now r) tbl"
    by (rule filter_cong) (simp_all add: unique_id_selected [OF assms])
  then show ?thesis
    by (simp add: sp_cleanup_old_alarms_idle)
qed

lemma no_row_selected_after:
  "filter (cur_where d now)
     (filter (\<lambda>r. alarm_id r \<notin> alarm_id ` {x \<in> set tbl. cur_where d now x}) tbl) = []"
  by (auto simp: filter_empty_conv)

lemma open_cur_idle:
  "open_cur d now (start_transaction (idle tbl)) = map alarm_id (filter (cur_where d now) tbl)"
  by (simp add: open_cur_def start_transaction_def idle_def visible_def)

text \<open>
  Why the theorems below ask for unique ids: the loop deletes by id, so on a table where a
  pending row shares its id with an old triggered row, the pending row is deleted as well.
\<close>

lemma shared_id_row_deleted:
  "sp_cleanup_old_alarms 30 5000000 (idle example_duplicate_ids) = idle []"
  by (simp add: sp_cleanup_old_alarms_def idle_def start_transaction_def visible_def
      open_cur_def commit_def read_loop_in_txn Let_def example_duplicate_ids_def
      cur_where_def date_sub_days_def)

text \<open>
  C1. The procedure deletes exactly the rows whose status is \<open>triggered\<close> or \<open>failed\<close> and
  whose \<open>created_at\<close> is earlier than \<open>days_old\<close> days before \<open>now\<close>; every other row stays, with
  all its columns and in its place. The scheduled event runs it with 30 days. The table's
  \<open>id\<close> column is unique (it is the identifier of the row).
\<close>

theorem sp_cleanup_old_alarms_deletes_exactly:
  assumes "distinct (map alarm_id tbl)"
  shows "sp_cleanup_old_alarms days_old now (idle tbl) =
           idle (filter (\<lambda>r. \<not> ((status r = Triggered \<or> status r = Failed) \<and>
                                  created_at r < now - days_old * 86400)) tbl) \<and>
         ev_cleanup_old_alarms now (idle tbl) =
           idle (filter (\<lambda>r. \<not> ((status r = Triggered \<or> status r = Failed) \<and>
                                  created_at r < now - 30 * 86400)) tbl)"
  using sp_cleanup_old_alarms_unique [OF assms]
  by (simp add: ev_cleanup_old_alarms_def cur_where_def date_sub_days_def)

theorem sp_cleanup_old_alarms_deletes_exactly_witness:
  "distinct (map alarm_id example_alarms) \<and>
   sp_cleanup_old_alarms 30 5000000 (idle example_alarms) =
     idle [\<lparr>alarm_id = 2, status = Pending, created_at = 0\<rparr>,
           \<lparr>alarm_id = 4, status = Failed, created_at = 4000000\<rparr>,
           \<lparr>alarm_id = 5, status = Deleted, created_at = 50\<rparr>] \<and>
   ev_cleanup_old_alarms 5000000 (idle example_alarms) =
     idle [\<lparr>alarm_id = 2, status = Pending, created_at = 0\<rparr>,
           \<lparr>alarm_id = 4, status = Failed, created_at = 4000000\<rparr>,
           \<lparr>alarm_id = 5, status = Deleted, created_at = 50\<rparr>]"
proof -
  have d: "distinct (map alarm_id example_alarms)"
    by (simp add: example_alarms_def)
  show ?thesis
    using d sp_cleanup_old_alarms_deletes_exactly [OF d, of 30 5000000]
    by (simp add: example_alarms_def)
qed

text \<open>
  C2. On a table with unique ids the cursor loop ends in the same state as the single
  set-based delete \<open>sweep_delete\<close>, also when the cursor delivers its ids in any other
  order.
\<close>

theorem cursor_loop_equals_sweep_delete:
  assumes "distinct (map alarm_id tbl)"
  shows "sp_cleanup_old_alarms days_old now (idle tbl) = sweep_delete days_old now (idle tbl) \<and>
         (\<forall>ids. mset ids = mset (open_cur days_old now (start_transaction (idle tbl))) \<longrightarrow>
            commit (read_loop ids (start_transaction (idle tbl))) =
              sweep_delete days_old now (idle tbl))"
proof (intro conjI allI impI)
  have sweep: "sweep_delete days_old now (idle tbl) =
               idle (filter (\<lambda>r. \<not> cur_where days_old now r) tbl)"
    by (simp add: sweep_delete_def idle_def cur_where_def date_sub_days_def)
  show whole: "sp_cleanup_old_alarms days_old now (idle tbl) = sweep_delete days_old now (idle tbl)"
    by (simp add: sweep sp_cleanup_old_alarms_unique [OF assms])
  fix ids
  assume "mset ids = mset (open_cur days_old now (start_transaction (idle tbl)))"
  then have "set ids = set (open_cur days_old now (start_transaction (idle tbl)))"
    by (rule mset_eq_setD)
  then have "read_loop ids (start_transaction (idle tbl)) =
             read_loop (open_cur days_old now (start_transaction (idle tbl)))
               (start_transaction (idle tbl))"
    by (simp add: start_transaction_def idle_def visible_def read_loop_in_txn)
  then have "commit (read_loop ids (start_transaction (idle tbl))) =
             sp_cleanup_old_alarms days_old now (idle tbl)"
    by (simp add: sp_cleanup_old_alarms_def Let_def)
  with whole show "commit (read_loop ids (start_transaction (idle tbl))) =
                   sweep_delete days_old now (idle tbl)"
    by simp
qed

theorem cursor_loop_equals_sweep_delete_witness:
  "distinct (map alarm_id example_alarms) \<and>
   mset [3, 1] = mset (open_cur 30 5000000 (start_transaction (idle example_alarms))) \<and>
   sp_cleanup_old_alarms 30 5000000 (idle example_alarms) =
     sweep_delete 30 5000000 (idle example_alarms) \<and>
   commit (read_loop [3, 1] (start_transaction (idle example_alarms))) =
     sweep_delete 30 5000000 (idle example_alarms)"
proof -
  have d: "distinct (map alarm_id example_alarms)"
    by (simp add: example_alarms_def)
  have m: "mset [3, 1] = mset (open_cur 30 5000000 (start_transaction (idle example_alarms)))"
    by (simp add: example_alarms_def open_cur_def start_transaction_def idle_def visible_def
        cur_where_def date_sub_days_def)
  from cursor_loop_equals_sweep_delete [OF d, of 30 5000000] m d show ?thesis
    by blast
qed

text \<open>
  C3. Running the procedure a second time at the same time changes nothing: the state is
  the one after the first run, and the second run's cursor is empty, so its loop deletes no
  row. A run on a table with no eligible row leaves the table as it is.
\<close>

theorem sweeper_idempotent:
  "sp_cleanup_old_alarms days_old now (sp_cleanup_old_alarms days_old now (idle tbl)) =
     sp_cleanup_old_alarms days_old now (idle tbl) \<and>
   open_cur days_old now (start_transaction (sp_cleanup_old_alarms days_old now (idle tbl))) = [] \<and>
   ((\<forall>r \<in> set tbl. \<not> ((status r = Triggered \<or> status r = Failed) \<and>
                        created_at r < now - days_old * 86400)) \<longrightarrow>
      sp_cleanup_old_alarms days_old now (idle tbl) = idle tbl)"
proof (intro conjI impI)
  let ?tbl' = "filter (\<lambda>r. alarm_id r \<notin> alarm_id ` {x \<in> set tbl. cur_where days_old now x}) tbl"
  have once: "sp_cleanup_old_alarms days_old now (idle tbl) = idle ?tbl'"
    by (rule sp_cleanup_old_alarms_idle)
  have none: "filter (cur_where days_old now) ?tbl' = []"
    by (rule no_row_selected_after)
  show "open_cur days_old now (start_transaction (sp_cleanup_old_alarms days_old now (idle tbl))) = []"
    by (simp only: once open_cur_idle none list.map)
  have e': "{x \<in> set ?tbl'. cur_where days_old now x} = {}"
    using none by (auto simp: filter_empty_conv)
  have "filter (\<lambda>r. alarm_id r \<notin> alarm_id ` {x \<in> set ?tbl'. cur_where days_old now x}) ?tbl' = ?tbl'"
    unfolding e' by simp
  then have "sp_cleanup_old_alarms days_old now (idle ?tbl') = idle ?tbl'"
    by (simp only: sp_cleanup_old_alarms_idle)
  then show "sp_cleanup_old_alarms days_old now (sp_cleanup_old_alarms days_old now (idle tbl)) =
             sp_cleanup_old_alarms days_old now (idle tbl)"
    by (simp only: once)
next
  assume "\<forall>r \<in> set tbl. \<not> ((status r = Triggered \<or> status r = Failed) \<and>
                        created_at r < now - days_old * 86400)"
  then have e: "{x \<in> set tbl. cur_where days_old now x} = {}"
    by (auto simp: cur_where_def date_sub_days_def)
  have "filter (\<lambda>r. alarm_id r \<notin> alarm_id ` {x \<in> set tbl. cur_where days_old now x}) tbl = tbl"
    unfolding e by simp
  then show "sp_cleanup_old_alarms days_old now (idle tbl) = idle tbl"
    by (simp only: sp_cleanup_old_alarms_idle)
qed

theorem sweeper_idempotent_witness:
  "\<not> (\<exists>r \<in> set example_pending. (status r = Triggered \<or> status r = Failed) \<and>
                        created_at r < 5000000 - 30 * 86400) \<and>
   sp_cleanup_old_alarms 30 5000000 (idle example_pending) = idle example_pending \<and>
   sp_cleanup_old_alarms 30 5000000 (sp_cleanup_old_alarms 30 5000000 (idle example_alarms)) =
     sp_cleanup_old_alarms 30 5000000 (idle example_alarms) \<and>
   open_cur 30 5000000 (start_transaction (sp_cleanup_old_alarms 30 5000000 (idle example_alarms))) = []"
proof -
  have h: "\<forall>r \<in> set example_pending. \<not> ((status r = Triggered \<or> status r = Failed) \<and>
                        created_at r < 5000000 - 30 * 86400)"
    by (simp add: example_pending_def)
  from sweeper_idempotent [of 30 5000000 example_pending] h
  have 1: "sp_cleanup_old_alarms 30 5000000 (idle example_pending) = idle example_pending"
    by blast
  from sweeper_idempotent [of 30 5000000 example_alarms] h 1 show ?thesis
    by blast
qed

lemma sp_cleanup_old_alarms_committed:
  "committed (sp_cleanup_old_alarms d now (idle tbl)) =
     filter (\<lambda>r. alarm_id r \<notin> alarm_id ` {x \<in> set tbl. cur_where d now x}) tbl"
  "txn (sp_cleanup_old_alarms d now (idle tbl)) = None"
  unfolding sp_cleanup_old_alarms_idle by (simp_all add: idle_def)

lemma run_steps_add:
  "run_steps (a + b) d now s = run_steps b d now (run_steps a d now s)"
  by (induction a arbitrary: s) simp_all

lemma run_steps_loop:
  "j \<le> length ids \<Longrightarrow>
   run_steps j d now \<lparr>session = db, cursor = ids, pc = At_read_loop\<rparr> =
     \<lparr>session = read_loop (take j ids) db, cursor = drop j ids, pc = At_read_loop\<rparr>"
proof (induction j arbitrary: db ids)
  case 0
  show ?case by simp
next
  case (Suc j)
  then obtain v rest where ids: "ids = v # rest"
    by (cases ids) auto
  with Suc.prems have "j \<le> length rest" by simp
  from Suc.IH [OF this] show ?case
    by (simp add: ids step_def)
qed

lemma run_steps_two:
  "run_steps 2 d now (invoke db) =
     \<lparr>session = start_transaction db, cursor = open_cur d now (start_transaction db),
      pc = At_read_loop\<rparr>"
  by (simp add: numeral_2_eq_2 step_def invoke_def)

lemma run_steps_passes:
  assumes "j \<le> length (open_cur d now (start_transaction db))"
  shows "run_steps (2 + j) d now (invoke db) =
     \<lparr>session = read_loop (take j (open_cur d now (start_transaction db))) (start_transaction db),
      cursor = drop j (open_cur d now (start_transaction db)), pc = At_read_loop\<rparr>"
  by (simp only: run_steps_add run_steps_two run_steps_loop [OF assms])

lemma run_steps_complete:
  "run_steps (length (open_cur d now (start_transaction db)) + 4) d now (invoke db) =
     \<lparr>session = sp_cleanup_old_alarms d now db, cursor = [], pc = Returned\<rparr>"
proof -
  let ?cur = "open_cur d now (start_transaction db)"
  have "length ?cur + 4 = (2 + length ?cur) + 2" by simp
  then have "run_steps (length ?cur + 4) d now (invoke db) =
             run_steps 2 d now (run_steps (2 + length ?cur) d now (invoke db))"
    by (simp only: run_steps_add)
  also have "run_steps (2 + length ?cur) d now (invoke db) =
       \<lparr>session = read_loop ?cur (start_transaction db), cursor = [], pc = At_read_loop\<rparr>"
    using run_steps_passes [of "length ?cur" d now db] by simp
  also have "run_steps 2 d now
       \<lparr>session = read_loop ?cur (start_transaction db), cursor = [], pc = At_read_loop\<rparr> =
     \<lparr>session = sp_cleanup_old_alarms d now db, cursor = [], pc = Returned\<rparr>"
    by (simp add: numeral_2_eq_2 step_def sp_cleanup_old_alarms_def Let_def)
  finally show ?thesis .
qed

lemma step_in_transaction:
  assumes "in_transaction tbl s"
  shows "in_transaction tbl (step d now s)"
proof (cases "pc s")
  case At_START_TRANSACTION
  with assms show ?thesis
    by (simp add: in_transaction_def step_def start_transaction_def idle_def visible_def)
next
  case At_OPEN
  with assms show ?thesis
    by (simp add: in_transaction_def step_def)
next
  case At_read_loop
  with assms show ?thesis
    by (cases "cursor s")
      (auto simp: in_transaction_def step_def delete_from_alarms_def split: option.splits)
next
  case At_COMMIT
  then show ?thesis
    by (simp add: in_transaction_def step_def)
next
  case Returned
  with assms show ?thesis
    by (simp add: step_def)
qed

lemma run_steps_in_transaction:
  "in_transaction tbl s \<Longrightarrow> in_transaction tbl (run_steps k d now s)"
  by (induction k arbitrary: s) (simp_all add: step_in_transaction)

lemma before_commit_unchanged:
  assumes "pc (run_steps k d now (invoke (idle tbl))) \<noteq> Returned"
  shows "committed (session (run_steps k d now (invoke (idle tbl)))) = tbl"
proof -
  have "in_transaction tbl (invoke (idle tbl))"
    by (simp add: in_transaction_def invoke_def)
  then have "in_transaction tbl (run_steps k d now (invoke (idle tbl)))"
    by (rule run_steps_in_transaction)
  with assms show ?thesis
    by (auto simp: in_transaction_def idle_def)
qed


lemma read_loop_idle_txn:
  "read_loop ids (start_transaction (idle tbl)) =
     \<lparr>committed = tbl, txn = Some (filter (\<lambda>r. alarm_id r \<notin> set ids) tbl)\<rparr>"
  by (simp add: start_transaction_def idle_def visible_def read_loop_in_txn)

text \<open>
  C9, amended. Run statement by statement, the procedure ends in the state
  \<open>sp_cleanup_old_alarms\<close> gives. All its deletions happen in the transaction it opens
  before the loop and commits after it: at every statement before the \<^verbatim>\<open>COMMIT\<close> has run the
  committed table is the one the invocation started with, and after a completed invocation
  no eligible row is left and no transaction is open. An invocation that stops after \<open>j\<close>
  passes of the loop leaves the transaction open with the first \<open>j\<close> deletions in it: the
  table is unchanged if that transaction is rolled back, and has exactly these deletions
  if the session commits.
\<close>

theorem sp_cleanup_transaction_scope:
  "run_steps (length (open_cur days_old now (start_transaction db)) + 4) days_old now (invoke db) =
     \<lparr>session = sp_cleanup_old_alarms days_old now db, cursor = [], pc = Returned\<rparr> \<and>
   (\<forall>k. pc (run_steps k days_old now (invoke (idle tbl))) \<noteq> Returned \<longrightarrow>
      committed (session (run_steps k days_old now (invoke (idle tbl)))) = tbl \<and>
      rollback (session (run_steps k days_old now (invoke (idle tbl)))) = idle tbl) \<and>
   (\<forall>j \<le> length (open_cur days_old now (start_transaction (idle tbl))).
      run_steps (2 + j) days_old now (invoke (idle tbl)) =
        \<lparr>session =
           \<lparr>committed = tbl,
            txn = Some (filter (\<lambda>r. alarm_id r \<notin>
                     set (take j (open_cur days_old now (start_transaction (idle tbl))))) tbl)\<rparr>,
         cursor = drop j (open_cur days_old now (start_transaction (idle tbl))),
         pc = At_read_loop\<rparr> \<and>
      commit (session (run_steps (2 + j) days_old now (invoke (idle tbl)))) =
        idle (filter (\<lambda>r. alarm_id r \<notin>
                set (take j (open_cur days_old now (start_transaction (idle tbl))))) tbl)) \<and>
   (\<forall>r \<in> set (committed (sp_cleanup_old_alarms days_old now (idle tbl))).
      \<not> ((status r = Triggered \<or> status r = Failed) \<and> created_at r < now - days_old * 86400)) \<and>
   txn (sp_cleanup_old_alarms days_old now (idle tbl)) = None"
proof (intro conjI allI impI ballI)
  show "run_steps (length (open_cur days_old now (start_transaction db)) + 4) days_old now
          (invoke db) =
        \<lparr>session = sp_cleanup_old_alarms days_old now db, cursor = [], pc = Returned\<rparr>"
    by (rule run_steps_complete)
next
  fix k
  assume "pc (run_steps k days_old now (invoke (idle tbl))) \<noteq> Returned"
  then show c: "committed (session (run_steps k days_old now (invoke (idle tbl)))) = tbl"
    by (rule before_commit_unchanged)
  then show "rollback (session (run_steps k days_old now (invoke (idle tbl)))) = idle tbl"
    by (simp add: rollback_def idle_def)
next
  fix j
  assume j: "j \<le> length (open_cur days_old now (start_transaction (idle tbl)))"
  show s: "run_steps (2 + j) days_old now (invoke (idle tbl)) =
        \<lparr>session =
           \<lparr>committed = tbl,
            txn = Some (filter (\<lambda>r. alarm_id r \<notin>
                     set (take j (open_cur days_old now (start_transaction (idle tbl))))) tbl)\<rparr>,
         cursor = drop j (open_cur days_old now (start_transaction (idle tbl))),
         pc = At_read_loop\<rparr>"
    by (simp only: run_steps_passes [OF j] read_loop_idle_txn)
  show "commit (session (run_steps (2 + j) days_old now (invoke (idle tbl)))) =
        idle (filter (\<lambda>r. alarm_id r \<notin>
                set (take j (open_cur days_old now (start_transaction (idle tbl))))) tbl)"
    unfolding s by (simp add: commit_def visible_def idle_def)
next
  fix r
  assume "r \<in> set (committed (sp_cleanup_old_alarms days_old now (idle tbl)))"
  then have "r \<in> set tbl"
    "alarm_id r \<notin> alarm_id ` {x \<in> set tbl. cur_where days_old now x}"
    by (simp_all add: sp_cleanup_old_alarms_committed)
  then have "\<not> cur_where days_old now r"
    by blast
  then show "\<not> ((status r = Triggered \<or> status r = Failed) \<and>
                created_at r < now - days_old * 86400)"
    by (simp add: cur_where_def date_sub_days_def)
next
  show "txn (sp_cleanup_old_alarms days_old now (idle tbl)) = None"
    by (rule sp_cleanup_old_alarms_committed)
qed

lemma example_cursor:
  "open_cur 30 5000000 (start_transaction (idle example_alarms)) = [1, 3]"
  by (simp add: open_cur_idle example_alarms_def cur_where_def date_sub_days_def)

text \<open>
  C9, as stated, fails: an invocation on the example table that stops after its first pass
  of the loop (three statements) leaves the session with row 1 deleted and the eligible
  row 3 still there; nothing in the procedure rolls this back, and a \<^verbatim>\<open>COMMIT\<close> of the
  session makes this partial deletion the table.
\<close>

theorem sp_cleanup_cut_off_counterexample:
  "run_steps 3 30 5000000 (invoke (idle example_alarms)) =
     \<lparr>session =
        \<lparr>committed = example_alarms,
         txn = Some [\<lparr>alarm_id = 2, status = Pending, created_at = 0\<rparr>,
                     \<lparr>alarm_id = 3, status = Failed, created_at = 100\<rparr>,
                     \<lparr>alarm_id = 4, status = Failed, created_at = 4000000\<rparr>,
                     \<lparr>alarm_id = 5, status = Deleted, created_at = 50\<rparr>]\<rparr>,
      cursor = [3], pc = At_read_loop\<rparr> \<and>
   commit (session (run_steps 3 30 5000000 (invoke (idle example_alarms)))) =
     idle [\<lparr>alarm_id = 2, status = Pending, created_at = 0\<rparr>,
           \<lparr>alarm_id = 3, status = Failed, created_at = 100\<rparr>,
           \<lparr>alarm_id = 4, status = Failed, created_at = 4000000\<rparr>,
           \<lparr>alarm_id = 5, status = Deleted, created_at = 50\<rparr>] \<and>
   (status \<lparr>alarm_id = 3, status = Failed, created_at = 100\<rparr> = Failed \<and>
    created_at \<lparr>alarm_id = 3, status = Failed, created_at = 100\<rparr> < 5000000 - 30 * 86400)"
proof -
  have "(1::nat) \<le> length (open_cur 30 5000000 (start_transaction (idle example_alarms)))"
    by (simp add: example_cursor)
  from run_steps_passes [OF this]
  have s: "run_steps 3 30 5000000 (invoke (idle example_alarms)) =
     \<lparr>session = read_loop [1] (start_transaction (idle example_alarms)),
      cursor = [3], pc = At_read_loop\<rparr>"
    by (simp add: example_cursor)
  show ?thesis
    unfolding s read_loop_idle_txn
    by (simp add: commit_def visible_def idle_def example_alarms_def)
qed

theorem sp_cleanup_transaction_scope_witness:
  "pc (run_steps 3 30 5000000 (invoke (idle example_alarms))) \<noteq> Returned \<and>
   committed (session (run_steps 3 30 5000000 (invoke (idle example_alarms)))) = example_alarms \<and>
   rollback (session (run_steps 3 30 5000000 (invoke (idle example_alarms)))) = idle example_alarms \<and>
   run_steps 6 30 5000000 (invoke (idle example_alarms)) =
     \<lparr>session = sp_cleanup_old_alarms 30 5000000 (idle example_alarms), cursor = [],
      pc = Returned\<rparr> \<and>
   committed (sp_cleanup_old_alarms 30 5000000 (idle example_alarms)) =
     [\<lparr>alarm_id = 2, status = Pending, created_at = 0\<rparr>,
      \<lparr>alarm_id = 4, status = Failed, created_at = 4000000\<rparr>,
      \<lparr>alarm_id = 5, status = Deleted, created_at = 50\<rparr>]"
proof -
  note scope = sp_cleanup_transaction_scope
    [where days_old = 30 and now = 5000000 and db = "idle example_alarms"
       and tbl = example_alarms]
  have j: "(1::nat) \<le> length (open_cur 30 5000000 (start_transaction (idle example_alarms)))"
    by (simp add: example_cursor)
  have three: "2 + 1 = (3::nat)" and six: "length [1, 3 :: int] + 4 = 6"
    by simp_all
  from scope [THEN conjunct2, THEN conjunct2, THEN conjunct1, rule_format, OF j]
  have "pc (run_steps (2 + 1) 30 5000000 (invoke (idle example_alarms))) = At_read_loop"
    by (simp only: invocation.simps)
  then have p: "pc (run_steps 3 30 5000000 (invoke (idle example_alarms))) \<noteq> Returned"
    by (simp only: three location.simps simp_thms)
  from scope [THEN conjunct2, THEN conjunct1, rule_format, OF p]
  have c:
    "committed (session (run_steps 3 30 5000000 (invoke (idle example_alarms)))) = example_alarms"
    "rollback (session (run_steps 3 30 5000000 (invoke (idle example_alarms)))) = idle example_alarms"
    by (rule conjunct1, rule conjunct2)
  from scope [THEN conjunct1]
  have f: "run_steps 6 30 5000000 (invoke (idle example_alarms)) =
     \<lparr>session = sp_cleanup_old_alarms 30 5000000 (idle example_alarms), cursor = [],
      pc = Returned\<rparr>"
    by (simp only: example_cursor six)
  have d: "distinct (map alarm_id example_alarms)"
    by (simp add: example_alarms_def)
  have r: "committed (sp_cleanup_old_alarms 30 5000000 (idle example_alarms)) =
     [\<lparr>alarm_id = 2, status = Pending, created_at = 0\<rparr>,
      \<lparr>alarm_id = 4, status = Failed, created_at = 4000000\<rparr>,
      \<lparr>alarm_id = 5, status = Deleted, created_at = 50\<rparr>]"
    unfolding sp_cleanup_old_alarms_unique [OF d]
    by (simp add: idle_def example_alarms_def cur_where_def date_sub_days_def)
  from p c f r show ?thesis by (simp only: simp_thms)
qed


section \<open>Properties of the RSI\<close>

lemma deltas_drop: "deltas (drop k xs) = drop k (deltas xs)"
proof (induction xs arbitrary: k rule: deltas.induct)
  case (1 x y xs)
  then show ?case by (cases k) simp_all
qed (simp_all add: drop_Cons split: nat.splits)

lemma gains_nonneg: "0 \<le> (\<Sum>d\<leftarrow>ds. max d (0::real))"
  by (rule sum_list_nonneg) auto

lemma losses_nonneg: "0 \<le> (\<Sum>d\<leftarrow>ds. max (- d) (0::real))"
  by (rule sum_list_nonneg) auto

lemma losses_zero:
  assumes "\<forall>d \<in> set ds. 0 \<le> d"
  shows "(\<Sum>d\<leftarrow>ds. max (- d) (0::real)) = 0"
  using assms by (induction ds) (simp_all add: max_def)

lemma average_gain_nonneg: "0 \<le> average_gain ds n"
  by (simp add: average_gain_def gains_nonneg)

lemma average_loss_nonneg: "0 \<le> average_loss ds n"
  by (simp add: average_loss_def losses_nonneg)

lemma rsi_formula_bounds:
  fixes g l :: real
  assumes "0 \<le> g" and "0 < l"
  shows "0 \<le> 100 - 100 / (1 + g / l)" and "100 - 100 / (1 + g / l) \<le> 100"
proof -
  from assms have rs: "0 \<le> g / l" by simp
  then have "1 \<le> 1 + g / l" by simp
  then have "100 / (1 + g / l) \<le> 100 / 1"
    by (intro divide_left_mono) simp_all
  then show "0 \<le> 100 - 100 / (1 + g / l)" by simp
  from rs have "0 \<le> 100 / (1 + g / l)" by simp
  then show "100 - 100 / (1 + g / l) \<le> 100" by simp
qed

text \<open>
  C4. With fewer than \<open>n + 1\<close> samples the result is \<open>InsufficientData\<close>. With a period
  \<open>n \<ge> 1\<close> (the periods the alarm schema allows) and at least \<open>n + 1\<close> samples the result
  is a value in \<open>[0, 100]\<close>, and it is exactly 100 when no delta of the series is a loss.
\<close>

theorem RSI_range:
  "(length series < n + 1 \<longrightarrow> RSI series n = InsufficientData) \<and>
   (0 < n \<and> n + 1 \<le> length series \<longrightarrow>
      (\<exists>v. RSI series n = Value v \<and> 0 \<le> v \<and> v \<le> 100)) \<and>
   (0 < n \<and> n + 1 \<le> length series \<and> (\<forall>d \<in> set (deltas series). 0 \<le> d) \<longrightarrow>
      RSI series n = Value 100)"
proof (intro conjI impI)
  assume "length series < n + 1"
  then show "RSI series n = InsufficientData"
    by (simp add: RSI_def)
next
  assume a: "0 < n \<and> n + 1 \<le> length series"
  let ?ds = "deltas (last_samples (n + 1) series)"
  show "\<exists>v. RSI series n = Value v \<and> 0 \<le> v \<and> v \<le> 100"
  proof (cases "average_loss ?ds n = 0")
    case True
    with a show ?thesis by (simp add: RSI_def Let_def)
  next
    case False
    with average_loss_nonneg [of ?ds n] have "0 < average_loss ?ds n" by simp
    from rsi_formula_bounds [OF average_gain_nonneg this, of ?ds] False a
    show ?thesis by (simp add: RSI_def Let_def)
  qed
next
  assume a: "0 < n \<and> n + 1 \<le> length series \<and> (\<forall>d \<in> set (deltas series). 0 \<le> d)"
  let ?ds = "deltas (last_samples (n + 1) series)"
  have "set ?ds \<subseteq> set (deltas series)"
    by (simp add: last_samples_def deltas_drop set_drop_subset)
  with a have "\<forall>d \<in> set ?ds. 0 \<le> d" by blast
  then have "average_loss ?ds n = 0"
    by (simp add: average_loss_def losses_zero)
  with a show "RSI series n = Value 100"
    by (simp add: RSI_def Let_def)
qed

theorem RSI_range_witness:
  "length [1::real] < 2 + 1 \<and> RSI [1] 2 = InsufficientData \<and>
   (0::nat) < 2 \<and> 2 + 1 \<le> length [10, 12, 11 :: real] \<and>
   (\<exists>v. RSI [10, 12, 11] 2 = Value v \<and> 0 \<le> v \<and> v \<le> 100) \<and>
   2 + 1 \<le> length [1, 2, 3 :: real] \<and> list_all (\<lambda>d. 0 \<le> d) (deltas [1, 2, 3]) \<and>
   RSI [1, 2, 3] 2 = Value 100"
proof -
  have h: "\<forall>d \<in> set (deltas [1, 2, 3]). 0 \<le> d" by simp
  from RSI_range [of "[1]" 2] RSI_range [of "[10, 12, 11]" 2] RSI_range [of "[1, 2, 3]" 2] h
  show ?thesis by simp
qed

section \<open>Properties of the submit handlers\<close>

lemma js_lt_const: "js_lt x (Finite c) \<longleftrightarrow> x = NegInfinity \<or> (\<exists>r. x = Finite r \<and> r < c)"
  by (cases x) simp_all

lemma js_gt_const: "js_gt x (Finite c) \<longleftrightarrow> x = Infinity \<or> (\<exists>r. x = Finite r \<and> c < r)"
  by (cases x) (simp_all add: js_gt_def)

lemma js_le_const: "js_le x (Finite c) \<longleftrightarrow> x = NegInfinity \<or> (\<exists>r. x = Finite r \<and> r \<le> c)"
  by (cases x) (auto simp: js_le_def)

lemma isNaN_iff: "isNaN x \<longleftrightarrow> x = NaN"
  by (cases x) simp_all

lemma in_bounds_iff:
  "\<not> (isNaN x \<or> js_lt x (Finite lo) \<or> js_gt x (Finite hi)) \<longleftrightarrow>
   (\<exists>r. x = Finite r \<and> lo \<le> r \<and> r \<le> hi)"
  by (cases x) (auto simp: js_gt_def)

lemma in_half_open_iff:
  "\<not> (isNaN x \<or> js_le x (Finite lo) \<or> js_gt x (Finite hi)) \<longleftrightarrow>
   (\<exists>r. x = Finite r \<and> lo < r \<and> r \<le> hi)"
  by (cases x) (auto simp: js_gt_def js_le_def)

text \<open>
  C7. For an rsi alarm the handler of \<^verbatim>\<open>unnamed/part_001\<close> builds the payload exactly when
  the period is a number with \<open>1 \<le> period \<le> 100\<close> and the threshold is a number with
  \<open>0 \<le> threshold \<le> 100\<close>; otherwise it throws one of its two validation errors and no
  payload is built.
\<close>

theorem onSubmit_rsi_accepts_iff:
  assumes "alarm_type formData = Some Rsi"
  shows
    "((\<exists>p t. Number (Option.bind (params formData) period) = Finite p \<and> 1 \<le> p \<and> p \<le> 100 \<and>
            Number (Option.bind (params formData) threshold) = Finite t \<and> 0 \<le> t \<and> t \<le> 100) \<longrightarrow>
        onSubmit formData =
          Inr (formData\<lparr>params := Some (no_params
                 \<lparr>period := Some (Number (Option.bind (params formData) period)),
                  threshold := Some (Number (Option.bind (params formData) threshold))\<rparr>)\<rparr>)) \<and>
     (\<not> (\<exists>p t. Number (Option.bind (params formData) period) = Finite p \<and> 1 \<le> p \<and> p \<le> 100 \<and>
            Number (Option.bind (params formData) threshold) = Finite t \<and> 0 \<le> t \<and> t \<le> 100) \<longrightarrow>
        onSubmit formData = Inl (Error ''Invalid RSI period'') \<or>
        onSubmit formData = Inl (Error ''Invalid RSI threshold''))"
proof -
  let ?per = "Number (Option.bind (params formData) period)"
  let ?thr = "Number (Option.bind (params formData) threshold)"
  have per: "(isNaN ?per \<or> js_lt ?per (Finite 1) \<or> js_gt ?per (Finite 100)) \<longleftrightarrow>
             \<not> (\<exists>p. ?per = Finite p \<and> 1 \<le> p \<and> p \<le> 100)"
    using in_bounds_iff [of ?per 1 100] by blast
  have thr: "(isNaN ?thr \<or> js_lt ?thr (Finite 0) \<or> js_gt ?thr (Finite 100)) \<longleftrightarrow>
             \<not> (\<exists>t. ?thr = Finite t \<and> 0 \<le> t \<and> t \<le> 100)"
    using in_bounds_iff [of ?thr 0 100] by blast
  have run: "onSubmit formData =
     (if \<not> (\<exists>p. ?per = Finite p \<and> 1 \<le> p \<and> p \<le> 100) then Inl (Error ''Invalid RSI period'')
      else if \<not> (\<exists>t. ?thr = Finite t \<and> 0 \<le> t \<and> t \<le> 100) then Inl (Error ''Invalid RSI threshold'')
      else Inr (formData\<lparr>params := Some (no_params\<lparr>period := Some ?per, threshold := Some ?thr\<rparr>)\<rparr>))"
    unfolding onSubmit_def Let_def per thr using assms by simp
  show ?thesis
    unfolding run by auto
qed


theorem onSubmit_rsi_accepts_iff_witness:
  "alarm_type (example_form Rsi (no_params\<lparr>period := Some (Finite 14), threshold := Some (Finite 30)\<rparr>)) = Some Rsi \<and>
   onSubmit (example_form Rsi (no_params\<lparr>period := Some (Finite 14), threshold := Some (Finite 30)\<rparr>)) =
     Inr (example_form Rsi (no_params\<lparr>period := Some (Finite 14), threshold := Some (Finite 30)\<rparr>)) \<and>
   (onSubmit (example_form Rsi (no_params\<lparr>period := Some (Finite 14), threshold := Some (Finite 101)\<rparr>)) =
      Inl (Error ''Invalid RSI period'') \<or>
    onSubmit (example_form Rsi (no_params\<lparr>period := Some (Finite 14), threshold := Some (Finite 101)\<rparr>)) =
      Inl (Error ''Invalid RSI threshold''))"
  using
    onSubmit_rsi_accepts_iff
      [of "example_form Rsi (no_params\<lparr>period := Some (Finite 14), threshold := Some (Finite 30)\<rparr>)"]
    onSubmit_rsi_accepts_iff
      [of "example_form Rsi (no_params\<lparr>period := Some (Finite 14), threshold := Some (Finite 101)\<rparr>)"]
  by (simp add: example_form_def no_params_def)

text \<open>
  C5, as stated, fails: a bollinger alarm with period 101 and std_dev 2 is rejected by the
  handler of \<^verbatim>\<open>unnamed/part_001\<close>.
\<close>

theorem onSubmit_bollinger_counterexample:
  "(1::real) \<le> 101 \<and> (0::real) < 2 \<and>
   onSubmit (example_form Bollinger (no_params\<lparr>period := Some (Finite 101), std_dev := Some (Finite 2)\<rparr>)) =
     Inl (Error ''Invalid Bollinger period'')"
  by (simp add: onSubmit_def example_form_def no_params_def js_gt_def)

text \<open>
  C5, amended. For a bollinger alarm the handler of \<^verbatim>\<open>unnamed/part_001\<close> builds the payload
  exactly when the period is a number with \<open>1 \<le> period \<le> 100\<close> and std_dev is a number with
  \<open>0 < std_dev \<le> 10\<close>, and throws a validation error otherwise; the handler of
  \<^verbatim>\<open>frontend/components/AlarmForm.tsx\<close> builds the payload exactly when both values are
  numbers.
\<close>

theorem onSubmit_bollinger_accepts_iff:
  assumes "alarm_type formData = Some Bollinger"
  shows
    "((\<exists>p s. Number (Option.bind (params formData) period) = Finite p \<and> 1 \<le> p \<and> p \<le> 100 \<and>
            Number (Option.bind (params formData) std_dev) = Finite s \<and> 0 < s \<and> s \<le> 10) \<longrightarrow>
        onSubmit formData =
          Inr (formData\<lparr>params := Some (no_params
                 \<lparr>period := Some (Number (Option.bind (params formData) period)),
                  std_dev := Some (Number (Option.bind (params formData) std_dev))\<rparr>)\<rparr>)) \<and>
     (\<not> (\<exists>p s. Number (Option.bind (params formData) period) = Finite p \<and> 1 \<le> p \<and> p \<le> 100 \<and>
            Number (Option.bind (params formData) std_dev) = Finite s \<and> 0 < s \<and> s \<le> 10) \<longrightarrow>
        onSubmit formData = Inl (Error ''Invalid Bollinger period'') \<or>
        onSubmit formData = Inl (Error ''Invalid standard deviation'')) \<and>
     (Number (Option.bind (params formData) period) \<noteq> NaN \<and>
      Number (Option.bind (params formData) std_dev) \<noteq> NaN \<longrightarrow>
        onSubmit_components formData =
          Inr (formData\<lparr>params := Some (no_params
                 \<lparr>period := Some (Number (Option.bind (params formData) period)),
                  std_dev := Some (Number (Option.bind (params formData) std_dev))\<rparr>)\<rparr>)) \<and>
     (Number (Option.bind (params formData) period) = NaN \<or>
      Number (Option.bind (params formData) std_dev) = NaN \<longrightarrow>
        onSubmit_components formData = Inl (Error ''Invalid Bollinger parameters''))"
proof -
  let ?per = "Number (Option.bind (params formData) period)"
  let ?sd = "Number (Option.bind (params formData) std_dev)"
  have per: "(isNaN ?per \<or> js_lt ?per (Finite 1) \<or> js_gt ?per (Finite 100)) \<longleftrightarrow>
             \<not> (\<exists>p. ?per = Finite p \<and> 1 \<le> p \<and> p \<le> 100)"
    using in_bounds_iff [of ?per 1 100] by blast
  have sd: "(isNaN ?sd \<or> js_le ?sd (Finite 0) \<or> js_gt ?sd (Finite 10)) \<longleftrightarrow>
            \<not> (\<exists>s. ?sd = Finite s \<and> 0 < s \<and> s \<le> 10)"
    using in_half_open_iff [of ?sd 0 10] by blast
  have run: "onSubmit formData =
     (if \<not> (\<exists>p. ?per = Finite p \<and> 1 \<le> p \<and> p \<le> 100) then Inl (Error ''Invalid Bollinger period'')
      else if \<not> (\<exists>s. ?sd = Finite s \<and> 0 < s \<and> s \<le> 10) then Inl (Error ''Invalid standard deviation'')
      else Inr (formData\<lparr>params := Some (no_params\<lparr>period := Some ?per, std_dev := Some ?sd\<rparr>)\<rparr>))"
    unfolding onSubmit_def Let_def per sd using assms by simp
  have old: "onSubmit_components formData =
     (if ?per = NaN \<or> ?sd = NaN then Inl (Error ''Invalid Bollinger parameters'')
      else Inr (formData\<lparr>params := Some (no_params\<lparr>period := Some ?per, std_dev := Some ?sd\<rparr>)\<rparr>))"
    unfolding onSubmit_components_def Let_def isNaN_iff using assms by simp
  show ?thesis
    unfolding run old by auto
qed

theorem onSubmit_bollinger_accepts_iff_witness:
  "alarm_type (example_form Bollinger (no_params\<lparr>period := Some (Finite 20), std_dev := Some (Finite 2)\<rparr>)) =
     Some Bollinger \<and>
   onSubmit (example_form Bollinger (no_params\<lparr>period := Some (Finite 20), std_dev := Some (Finite 2)\<rparr>)) =
     Inr (example_form Bollinger (no_params\<lparr>period := Some (Finite 20), std_dev := Some (Finite 2)\<rparr>)) \<and>
   onSubmit_components (example_form Bollinger (no_params\<lparr>period := Some (Finite 20), std_dev := Some (Finite 2)\<rparr>)) =
     Inr (example_form Bollinger (no_params\<lparr>period := Some (Finite 20), std_dev := Some (Finite 2)\<rparr>)) \<and>
   (onSubmit (example_form Bollinger (no_params\<lparr>period := Some (Finite 20), std_dev := Some (Finite 11)\<rparr>)) =
      Inl (Error ''Invalid Bollinger period'') \<or>
    onSubmit (example_form Bollinger (no_params\<lparr>period := Some (Finite 20), std_dev := Some (Finite 11)\<rparr>)) =
      Inl (Error ''Invalid standard deviation'')) \<and>
   onSubmit_components (example_form Bollinger (no_params\<lparr>period := Some (Finite 20)\<rparr>)) =
     Inl (Error ''Invalid Bollinger parameters'')"
  using
    onSubmit_bollinger_accepts_iff
      [of "example_form Bollinger (no_params\<lparr>period := Some (Finite 20), std_dev := Some (Finite 2)\<rparr>)"]
    onSubmit_bollinger_accepts_iff
      [of "example_form Bollinger (no_params\<lparr>period := Some (Finite 20), std_dev := Some (Finite 11)\<rparr>)"]
    onSubmit_bollinger_accepts_iff
      [of "example_form Bollinger (no_params\<lparr>period := Some (Finite 20)\<rparr>)"]
  by (simp add: example_form_def no_params_def)

text \<open>
  C6, as stated, fails: for a price alarm with target price 50000 and no direction the
  handler of \<^verbatim>\<open>frontend/components/AlarmForm.tsx\<close> submits params without a direction.
\<close>

theorem onSubmit_price_counterexample:
  "onSubmit_components (example_form Price (no_params\<lparr>target_price := Some (Finite 50000)\<rparr>)) =
     Inr (example_form Price
       \<lparr>target_price = Some (Finite 50000), period = None, threshold = None, std_dev = None,
        direction = None\<rparr>)"
  by (simp add: onSubmit_components_def example_form_def no_params_def)

text \<open>
  C6, amended. For a price alarm the handler of \<^verbatim>\<open>unnamed/part_001\<close> builds the payload
  exactly when the target price is a number greater than 0 and rejects it otherwise; the
  params it submits hold the target price and a direction, which is \<open>above\<close> when the form
  data has none. The handler of \<^verbatim>\<open>frontend/components/AlarmForm.tsx\<close> rejects a target price
  that is not a number, and the params it submits hold the target price alone.
\<close>

theorem onSubmit_price_validation:
  assumes "alarm_type formData = Some Price"
  shows
    "(Number (Option.bind (params formData) target_price) = Infinity \<or>
      (\<exists>x. Number (Option.bind (params formData) target_price) = Finite x \<and> 0 < x) \<longrightarrow>
        onSubmit formData =
          Inr (formData\<lparr>params := Some (no_params
                 \<lparr>target_price := Some (Number (Option.bind (params formData) target_price)),
                  direction := Some (case Option.bind (params formData) direction of
                                       None \<Rightarrow> Above | Some d \<Rightarrow> d)\<rparr>)\<rparr>)) \<and>
     (\<not> (Number (Option.bind (params formData) target_price) = Infinity \<or>
         (\<exists>x. Number (Option.bind (params formData) target_price) = Finite x \<and> 0 < x)) \<longrightarrow>
        onSubmit formData = Inl (Error ''Invalid price value'')) \<and>
     (\<forall>payload. onSubmit formData = Inr payload \<longrightarrow>
        (\<exists>ps x d. params payload = Some ps \<and> target_price ps = Some x \<and> direction ps = Some d \<and>
           (Option.bind (params formData) direction = None \<longrightarrow> d = Above))) \<and>
     (Number (Option.bind (params formData) target_price) = NaN \<longrightarrow>
        onSubmit_components formData = Inl (Error ''Invalid target price value'')) \<and>
     (\<forall>payload. onSubmit_components formData = Inr payload \<longrightarrow>
        payload = formData\<lparr>params := Some (no_params
           \<lparr>target_price := Some (Number (Option.bind (params formData) target_price))\<rparr>)\<rparr>)"
proof -
  let ?tp = "Number (Option.bind (params formData) target_price)"
  have tp: "(isNaN ?tp \<or> js_le ?tp (Finite 0)) \<longleftrightarrow>
            \<not> (?tp = Infinity \<or> (\<exists>x. ?tp = Finite x \<and> 0 < x))"
    by (cases ?tp) (auto simp: js_le_def)
  have run: "onSubmit formData =
     (if \<not> (?tp = Infinity \<or> (\<exists>x. ?tp = Finite x \<and> 0 < x)) then Inl (Error ''Invalid price value'')
      else Inr (formData\<lparr>params := Some (no_params
                 \<lparr>target_price := Some ?tp,
                  direction := Some (case Option.bind (params formData) direction of
                                       None \<Rightarrow> Above | Some d \<Rightarrow> d)\<rparr>)\<rparr>))"
    unfolding onSubmit_def Let_def tp using assms by simp
  have old: "onSubmit_components formData =
     (if ?tp = NaN then Inl (Error ''Invalid target price value'')
      else Inr (formData\<lparr>params := Some (no_params\<lparr>target_price := Some ?tp\<rparr>)\<rparr>))"
    unfolding onSubmit_components_def Let_def isNaN_iff using assms by simp
  show ?thesis
    unfolding run old by (auto simp: no_params_def)
qed

theorem onSubmit_price_validation_witness:
  "alarm_type (example_form Price (no_params\<lparr>target_price := Some (Finite 50000)\<rparr>)) = Some Price \<and>
   onSubmit (example_form Price (no_params\<lparr>target_price := Some (Finite 50000)\<rparr>)) =
     Inr (example_form Price (no_params\<lparr>target_price := Some (Finite 50000), direction := Some Above\<rparr>)) \<and>
   onSubmit (example_form Price (no_params\<lparr>target_price := Some (Finite 0), direction := Some Below\<rparr>)) =
     Inl (Error ''Invalid price value'') \<and>
   onSubmit_components (example_form Price no_params) = Inl (Error ''Invalid target price value'')"
  using
    onSubmit_price_validation [of "example_form Price (no_params\<lparr>target_price := Some (Finite 50000)\<rparr>)"]
    onSubmit_price_validation
      [of "example_form Price (no_params\<lparr>target_price := Some (Finite 0), direction := Some Below\<rparr>)"]
    onSubmit_price_validation [of "example_form Price no_params"]
  by (simp add: example_form_def no_params_def)

section \<open>Properties of the asset symbol validation\<close>

lemma symbol_class_chars:
  "list_ex (\<lambda>i. class_item_matches i c) symbol_class \<longleftrightarrow>
     c \<in> ascii_letters \<or> c \<in> ascii_digits \<or> c = CHR ''-'' \<or> c = CHR ''/''"
  by (cases c) (simp add: symbol_class_def ascii_letters_def ascii_digits_def)

lemma pattern_test_symbol_syntax: "pattern_test symbol_class v \<longleftrightarrow> symbol_syntax v"
  by (simp add: pattern_test_def symbol_syntax_def list_all_iff symbol_class_chars)

text \<open>
  C8. The form accepts an asset symbol exactly when it is not empty and every character is
  an ASCII letter, a digit, \<^verbatim>\<open>-\<close> or \<^verbatim>\<open>/\<close>; the check is the same for every asset class.
\<close>

theorem asset_symbol_accepted_iff:
  "(asset_symbol_error formData = None \<longleftrightarrow> symbol_syntax (asset_symbol formData)) \<and>
   asset_symbol_error (formData\<lparr>asset_class := c\<rparr>) = asset_symbol_error formData"
proof
  show "asset_symbol_error formData = None \<longleftrightarrow> symbol_syntax (asset_symbol formData)"
  proof (cases "asset_symbol formData = []")
    case True
    then show ?thesis by (simp add: asset_symbol_error_def symbol_syntax_def)
  next
    case False
    then show ?thesis by (simp add: asset_symbol_error_def pattern_test_symbol_syntax)
  qed
  show "asset_symbol_error (formData\<lparr>asset_class := c\<rparr>) = asset_symbol_error formData"
    by (simp add: asset_symbol_error_def)
qed

theorem asset_symbol_accepted_iff_witness:
  "symbol_syntax ''EUR/USD'' \<and>
   asset_symbol_error ((example_form Price no_params)\<lparr>asset_symbol := ''EUR/USD''\<rparr>) = None \<and>
   \<not> symbol_syntax ''BTC USD'' \<and>
   asset_symbol_error ((example_form Price no_params)\<lparr>asset_symbol := ''BTC USD''\<rparr>) \<noteq> None"
proof -
  have ok: "symbol_syntax ''EUR/USD''"
    by (simp add: symbol_syntax_def ascii_letters_def ascii_digits_def)
  have bad: "\<not> symbol_syntax ''BTC USD''"
    by (simp add: symbol_syntax_def ascii_letters_def ascii_digits_def)
  from asset_symbol_accepted_iff [of "(example_form Price no_params)\<lparr>asset_symbol := ''EUR/USD''\<rparr>"]
    asset_symbol_accepted_iff [of "(example_form Price no_params)\<lparr>asset_symbol := ''BTC USD''\<rparr>"]
    ok bad
  show ?thesis by simp
qed

section \<open>Properties of the asset cache\<close>

lemma getCachedAssets_fresh:
  assumes "cache assetClass = Some c" and "now - timestamp c < CACHE_DURATION_MS"
  shows "getCachedAssets getAssets now cache assetClass =
           \<lparr>result = Inr (data c), assetCache = cache, requests = []\<rparr>"
  using assms by (simp add: getCachedAssets_def Let_def)

lemma getCachedAssets_stale:
  assumes "cache assetClass = Some c" and "\<not> now - timestamp c < CACHE_DURATION_MS"
  shows "getCachedAssets getAssets now cache assetClass =
           (case getAssets assetClass of
              Inr response \<Rightarrow>
                \<lparr>result = Inr (assets response),
                 assetCache = cache(assetClass \<mapsto> \<lparr>data = assets response, timestamp = now\<rparr>),
                 requests = [assetClass]\<rparr>
            | Inl err \<Rightarrow> \<lparr>result = Inr (data c), assetCache = cache, requests = [assetClass]\<rparr>)"
  using assms by (simp add: getCachedAssets_def Let_def split: sum.splits)

lemma getCachedAssets_missing:
  assumes "cache assetClass = None"
  shows "getCachedAssets getAssets now cache assetClass =
           (case getAssets assetClass of
              Inr response \<Rightarrow>
                \<lparr>result = Inr (assets response),
                 assetCache = cache(assetClass \<mapsto> \<lparr>data = assets response, timestamp = now\<rparr>),
                 requests = [assetClass]\<rparr>
            | Inl err \<Rightarrow> \<lparr>result = Inl err, assetCache = cache, requests = [assetClass]\<rparr>)"
  using assms by (simp add: getCachedAssets_def Let_def split: sum.splits)

text \<open>
  C10. With a cache entry for the class younger than five minutes, \<^verbatim>\<open>getCachedAssets\<close>
  returns the cached list and issues no request. When the request fails it returns the
  cached list if the class has an entry, however old, and fails with the request's error
  only when the class has no entry; entries are never removed from the cache, so a class
  has no entry only if none was ever stored.
\<close>

theorem getCachedAssets_cache_policy:
  "(cache assetClass = Some c \<and> now - timestamp c < 5 * 60 * 1000 \<longrightarrow>
      getCachedAssets getAssets now cache assetClass =
        \<lparr>result = Inr (data c), assetCache = cache, requests = []\<rparr>) \<and>
   (cache assetClass = Some c \<and> \<not> now - timestamp c < 5 * 60 * 1000 \<and>
    getAssets assetClass = Inl err \<longrightarrow>
      getCachedAssets getAssets now cache assetClass =
        \<lparr>result = Inr (data c), assetCache = cache, requests = [assetClass]\<rparr>) \<and>
   (cache assetClass = None \<and> getAssets assetClass = Inl err \<longrightarrow>
      getCachedAssets getAssets now cache assetClass =
        \<lparr>result = Inl err, assetCache = cache, requests = [assetClass]\<rparr>) \<and>
   (result (getCachedAssets getAssets now cache assetClass) = Inl err \<longrightarrow>
      cache assetClass = None \<and> getAssets assetClass = Inl err) \<and>
   dom cache \<subseteq> dom (assetCache (getCachedAssets getAssets now cache assetClass))"
proof (intro conjI impI)
  assume "cache assetClass = Some c \<and> now - timestamp c < 5 * 60 * 1000"
  then show "getCachedAssets getAssets now cache assetClass =
        \<lparr>result = Inr (data c), assetCache = cache, requests = []\<rparr>"
    by (simp add: getCachedAssets_fresh CACHE_DURATION_MS_def)
next
  assume "cache assetClass = Some c \<and> \<not> now - timestamp c < 5 * 60 * 1000 \<and>
      getAssets assetClass = Inl err"
  then show "getCachedAssets getAssets now cache assetClass =
        \<lparr>result = Inr (data c), assetCache = cache, requests = [assetClass]\<rparr>"
    by (simp add: getCachedAssets_stale CACHE_DURATION_MS_def)
next
  assume "cache assetClass = None \<and> getAssets assetClass = Inl err"
  then show "getCachedAssets getAssets now cache assetClass =
        \<lparr>result = Inl err, assetCache = cache, requests = [assetClass]\<rparr>"
    by (simp add: getCachedAssets_missing)
next
  assume r: "result (getCachedAssets getAssets now cache assetClass) = Inl err"
  show none: "cache assetClass = None"
  proof (cases "cache assetClass")
    case None
    then show ?thesis .
  next
    case (Some e)
    show ?thesis
    proof (cases "now - timestamp e < CACHE_DURATION_MS")
      case True
      from r show ?thesis
        unfolding getCachedAssets_fresh [where cache = cache and assetClass = assetClass, OF Some True] by simp
    next
      case False
      from r show ?thesis
        unfolding getCachedAssets_stale [where cache = cache and assetClass = assetClass, OF Some False]
        by (cases "getAssets assetClass") simp_all
    qed
  qed
  from r show "getAssets assetClass = Inl err"
    unfolding getCachedAssets_missing [where cache = cache and assetClass = assetClass, OF none]
    by (cases "getAssets assetClass") simp_all
next
  show "dom cache \<subseteq> dom (assetCache (getCachedAssets getAssets now cache assetClass))"
  proof (cases "cache assetClass")
    case None
    show ?thesis
      unfolding getCachedAssets_missing [where cache = cache and assetClass = assetClass, OF None]
      by (cases "getAssets assetClass") auto
  next
    case (Some e)
    show ?thesis
    proof (cases "now - timestamp e < CACHE_DURATION_MS")
      case True
      show ?thesis
        unfolding getCachedAssets_fresh [where cache = cache and assetClass = assetClass, OF Some True] by simp
    next
      case False
      show ?thesis
        unfolding getCachedAssets_stale [where cache = cache and assetClass = assetClass, OF Some False]
        by (cases "getAssets assetClass") auto
    qed
  qed
qed


theorem getCachedAssets_cache_policy_witness:
  "example_cache Crypto = Some \<lparr>data = [''BTC-USD'', ''ETH-USD''], timestamp = 1000\<rparr> \<and>
   getCachedAssets network_down 200000 example_cache Crypto =
     \<lparr>result = Inr [''BTC-USD'', ''ETH-USD''], assetCache = example_cache, requests = []\<rparr> \<and>
   getCachedAssets network_down 900000 example_cache Crypto =
     \<lparr>result = Inr [''BTC-USD'', ''ETH-USD''], assetCache = example_cache, requests = [Crypto]\<rparr> \<and>
   example_cache Forex = None \<and>
   getCachedAssets network_down 900000 example_cache Forex =
     \<lparr>result = Inl (APIError 500 ''Failed to fetch''), assetCache = example_cache,
      requests = [Forex]\<rparr>"
proof -
  have c: "example_cache Crypto = Some \<lparr>data = [''BTC-USD'', ''ETH-USD''], timestamp = 1000\<rparr>"
    and f: "example_cache Forex = None"
    by (simp_all add: example_cache_def)
  have n: "network_down Crypto = Inl (APIError 500 ''Failed to fetch'')"
    "network_down Forex = Inl (APIError 500 ''Failed to fetch'')"
    by (simp_all add: network_down_def)
  have 1: "getCachedAssets network_down 200000 example_cache Crypto =
     \<lparr>result = Inr [''BTC-USD'', ''ETH-USD''], assetCache = example_cache, requests = []\<rparr>"
    using getCachedAssets_cache_policy
      [where cache = example_cache and assetClass = Crypto and now = 200000
         and c = "\<lparr>data = [''BTC-USD'', ''ETH-USD''], timestamp = 1000\<rparr>"
         and getAssets = network_down] c
    by simp
  have 2: "getCachedAssets network_down 900000 example_cache Crypto =
     \<lparr>result = Inr [''BTC-USD'', ''ETH-USD''], assetCache = example_cache, requests = [Crypto]\<rparr>"
    using getCachedAssets_cache_policy
      [where cache = example_cache and assetClass = Crypto and now = 900000
         and c = "\<lparr>data = [''BTC-USD'', ''ETH-USD''], timestamp = 1000\<rparr>"
         and getAssets = network_down and err = "APIError 500 ''Failed to fetch''"] c n
    by simp
  have 3: "getCachedAssets network_down 900000 example_cache Forex =
     \<lparr>result = Inl (APIError 500 ''Failed to fetch''), assetCache = example_cache,
      requests = [Forex]\<rparr>"
    using getCachedAssets_cache_policy
      [where cache = example_cache and assetClass = Forex and now = 900000
         and getAssets = network_down and err = "APIError 500 ''Failed to fetch''"] f n
    by simp
  from c f 1 2 3 show ?thesis by (simp only: simp_thms)
qed

end
